theory Spec2Isabelle
  imports Complex_Main
begin

section \<open>JavaScript values\<close>

text \<open>
  The route handlers are TypeScript running on rows that arrive as JSON. A text column
  holds a string, \<open>null\<close>, or is missing from the row (\<open>undefined\<close>); strict equality
  \<open>===\<close> on such values is equality of the datatype below. A numeric column holds a number
  or is \<open>null\<close>/missing; it is an \<open>option\<close> here.
\<close>

datatype jsval = Undefined | Null | Str string

definition js_or :: "rat option \<Rightarrow> rat \<Rightarrow> rat" where
  \<comment> \<open>\<open>a || b\<close> for a numeric-or-absent \<open>a\<close>: \<open>null\<close>, \<open>undefined\<close> and \<open>0\<close> are falsy.\<close>
  "js_or a b = (case a of None \<Rightarrow> b | Some v \<Rightarrow> if v = 0 then b else v)"

subsection \<open>Numbers as IEEE 754 doubles\<close>

text \<open>
  The trend annotation computes with JavaScript numbers, which are binary64 floating
  point values. A finite double is the rational it denotes; the two zeros are one value
  (the handler never divides by a zero and prints both as \<open>0\<close>). Every arithmetic result
  is the exact result rounded to the nearest double, a tie going to the even
  significand; a result of magnitude \<open>2^1024\<close> or more is an infinity; below \<open>2^-1022\<close>
  the doubles are spaced \<open>2^-1074\<close> apart.
\<close>

datatype double = Finite rat | PInf | NInf | NaN

function bit_length :: "int \<Rightarrow> int" where
  \<comment> \<open>The number of binary digits of a positive integer.\<close>
  "bit_length n = (if n \<le> 0 then 0 else 1 + bit_length (n div 2))"
  by pat_completeness auto
termination
  by (relation "measure nat") auto

declare bit_length.simps [simp del]

definition floor_log2 :: "rat \<Rightarrow> int" where
  \<comment> \<open>For \<open>a > 0\<close>, the \<open>e\<close> with \<open>2^e \<le> a < 2^(e+1)\<close>.\<close>
  "floor_log2 a =
     (if 1 \<le> a then bit_length \<lfloor>a\<rfloor> - 1
      else - bit_length (\<lceil>1 / a\<rceil> - 1))"

definition pow2 :: "int \<Rightarrow> rat" where
  "pow2 k = (if 0 \<le> k then 2 ^ nat k else 1 / 2 ^ nat (- k))"

definition round_half_even :: "rat \<Rightarrow> int" where
  "round_half_even m =
     (let f = \<lfloor>m\<rfloor>; r = m - of_int f
      in if r < 1 / 2 then f else if 1 / 2 < r then f + 1 else if even f then f else f + 1)"

definition rd :: "rat \<Rightarrow> double" where
  \<comment> \<open>The double nearest to \<open>x\<close>: 53 significant bits, exponents from -1022 to 1023.\<close>
  "rd x =
     (if x = 0 then Finite 0
      else (let a = \<bar>x\<bar>;
                e = max (floor_log2 a) (- 1022);
                q = pow2 (e - 52);
                n = round_half_even (a / q)
            in if 1023 < e \<or> (e = 1023 \<and> n = 2 ^ 53) then (if x < 0 then NInf else PInf)
               else Finite (sgn x * of_int n * q)))"

definition json_number :: "rat \<Rightarrow> double" where
  \<comment> \<open>The number that \<open>JSON.parse\<close> and \<open>parseFloat\<close> read from a decimal numeral.\<close>
  "json_number x = rd x"

fun fl_sub :: "double \<Rightarrow> double \<Rightarrow> double" where
  "fl_sub NaN y = NaN"
| "fl_sub x NaN = NaN"
| "fl_sub (Finite a) (Finite b) = rd (a - b)"
| "fl_sub (Finite a) PInf = NInf"
| "fl_sub (Finite a) NInf = PInf"
| "fl_sub PInf PInf = NaN"
| "fl_sub NInf NInf = NaN"
| "fl_sub PInf y = PInf"
| "fl_sub NInf y = NInf"

fun fl_mul :: "double \<Rightarrow> double \<Rightarrow> double" where
  "fl_mul NaN y = NaN"
| "fl_mul x NaN = NaN"
| "fl_mul (Finite a) (Finite b) = rd (a * b)"
| "fl_mul (Finite a) y = (if a = 0 then NaN else if (0 < a) = (y = PInf) then PInf else NInf)"
| "fl_mul x (Finite b) = (if b = 0 then NaN else if (0 < b) = (x = PInf) then PInf else NInf)"
| "fl_mul x y = (if x = y then PInf else NInf)"

fun fl_div :: "double \<Rightarrow> double \<Rightarrow> double" where
  \<comment> \<open>A zero divisor is taken as \<open>+0\<close>; the handler divides by a positive price and by 100.\<close>
  "fl_div NaN y = NaN"
| "fl_div x NaN = NaN"
| "fl_div (Finite a) (Finite b) =
     (if b = 0 then (if a = 0 then NaN else if 0 < a then PInf else NInf) else rd (a / b))"
| "fl_div (Finite a) y = Finite 0"
| "fl_div x (Finite b) = (if (0 \<le> b) = (x = PInf) then PInf else NInf)"
| "fl_div x y = NaN"

fun fl_less :: "double \<Rightarrow> double \<Rightarrow> bool" where
  \<comment> \<open>\<open>x < y\<close>; \<open>x > y\<close> is \<open>fl_less y x\<close>. A comparison with \<open>NaN\<close> is false.\<close>
  "fl_less NaN y = False"
| "fl_less x NaN = False"
| "fl_less (Finite a) (Finite b) = (a < b)"
| "fl_less (Finite a) PInf = True"
| "fl_less (Finite a) NInf = False"
| "fl_less NInf NInf = False"
| "fl_less NInf y = True"
| "fl_less PInf y = False"

definition dbl_or :: "double option \<Rightarrow> double \<Rightarrow> double" where
  \<comment> \<open>\<open>a || b\<close>: \<open>null\<close>, \<open>undefined\<close>, \<open>0\<close> and \<open>NaN\<close> are falsy.\<close>
  "dbl_or a b = (case a of None \<Rightarrow> b | Some v \<Rightarrow> if v = Finite 0 \<or> v = NaN then b else v)"

fun toFixed1 :: "double \<Rightarrow> double" where
  \<comment> \<open>\<open>Number.parseFloat(x.toFixed(1))\<close>. \<open>toFixed\<close> prints a value that is not finite, or
      of magnitude \<open>10^21\<close> or more, as \<open>String(x)\<close>, which reads back as \<open>x\<close>. Otherwise the
      sign is split off and the nearest multiple of one tenth of the exact value is
      printed, the larger one on a tie; \<open>parseFloat\<close> reads the double nearest to it.\<close>
  "toFixed1 (Finite x) =
     (if 10 ^ 21 \<le> \<bar>x\<bar> then Finite x
      else if x < 0 then json_number (- (of_int \<lfloor>(- x) * 10 + 1 / 2\<rfloor> / 10))
      else json_number (of_int \<lfloor>x * 10 + 1 / 2\<rfloor> / 10))"
| "toFixed1 x = x"

fun Math_round :: "double \<Rightarrow> double" where
  \<comment> \<open>\<open>Math.round\<close>: nearest integer, a tie goes up.\<close>
  "Math_round (Finite x) = Finite (of_int \<lfloor>x + 1 / 2\<rfloor>)"
| "Math_round x = x"

section \<open>Market prices: the trend annotation of \<open>district-stats/route.ts\<close>\<close>

record market_price =
  crop_name :: jsval
  commodity :: jsval
  modal_price :: "double option"
  max_price :: "double option"
  min_price :: "double option"

record processed_price =
  p_crop_name :: jsval
  p_commodity :: jsval
  p_modal_price :: "double option"
  p_max_price :: "double option"
  p_min_price :: "double option"
  trend :: string
  change_percent :: double
  change_amount :: double

definition same_crop :: "market_price \<Rightarrow> market_price \<Rightarrow> bool" where
  \<comment> \<open>The predicate of \<open>find\<close>: \<open>p.crop_name === price.crop_name || p.commodity === price.commodity\<close>.\<close>
  "same_crop price p \<longleftrightarrow> crop_name p = crop_name price \<or> commodity p = commodity price"

definition previousPrice :: "market_price list \<Rightarrow> nat \<Rightarrow> market_price \<Rightarrow> market_price option" where
  \<comment> \<open>\<open>array.slice(index + 1).find(...)\<close>; \<open>None\<close> is \<open>undefined\<close>.\<close>
  "previousPrice array index price = List.find (same_crop price) (drop (index + 1) array)"

definition price_chain :: "market_price \<Rightarrow> double" where
  \<comment> \<open>\<open>x.modal_price || x.max_price || x.min_price || 0\<close>, lines 122 and 123.\<close>
  "price_chain x =
     dbl_or (modal_price x) (dbl_or (max_price x) (dbl_or (min_price x) (Finite 0)))"

definition amount_base :: "market_price \<Rightarrow> double" where
  \<comment> \<open>\<open>price.modal_price || price.max_price || 0\<close>, line 135.\<close>
  "amount_base x = dbl_or (modal_price x) (dbl_or (max_price x) (Finite 0))"

definition classify :: "double \<Rightarrow> string" where
  \<comment> \<open>\<open>changePercent > 2 ? "up" : changePercent < -2 ? "down" : "stable"\<close>.\<close>
  "classify changePercent =
     (if fl_less (Finite 2) changePercent then ''up''
      else if fl_less changePercent (Finite (- 2)) then ''down''
      else ''stable'')"

definition trend_change :: "market_price \<Rightarrow> market_price option \<Rightarrow> string \<times> double" where
  \<comment> \<open>The two \<open>let\<close> variables \<open>trend\<close> and \<open>changePercent\<close> after lines 118 to 129.\<close>
  "trend_change price prev =
     (case prev of
        None \<Rightarrow> (''stable'', Finite 0)
      | Some previous \<Rightarrow>
          (let currentPrice = price_chain price; prevPrice = price_chain previous
           in if fl_less (Finite 0) prevPrice
              then (let changePercent =
                          fl_mul (fl_div (fl_sub currentPrice prevPrice) prevPrice) (Finite 100)
                    in (classify changePercent, changePercent))
              else (''stable'', Finite 0)))"

definition process_price :: "market_price \<Rightarrow> nat \<Rightarrow> market_price list \<Rightarrow> processed_price" where
  \<comment> \<open>The callback of \<open>pricesData.map((price, index, array) => ...)\<close>.\<close>
  "process_price price index array =
     (case trend_change price (previousPrice array index price) of
        (t, changePercent) \<Rightarrow>
          \<lparr> p_crop_name = crop_name price, p_commodity = commodity price,
            p_modal_price = modal_price price, p_max_price = max_price price,
            p_min_price = min_price price,
            trend = t,
            change_percent = toFixed1 changePercent,
            change_amount =
              Math_round (fl_mul (amount_base price) (fl_div changePercent (Finite 100))) \<rparr>)"

definition processedPrices :: "market_price list \<Rightarrow> processed_price list" where
  \<comment> \<open>\<open>pricesData.map(...)\<close> on the array the repository returned.\<close>
  "processedPrices array = map (\<lambda>index. process_price (array ! index) index array) [0 ..< length array]"

section \<open>Regional statistics: the handler of \<open>district-stats/route.ts\<close>\<close>

subsection \<open>\<open>parseInt\<close>\<close>

text \<open>
  \<open>parseInt(s)\<close> with no radix: leading white space is skipped, one sign is read, a
  \<open>0x\<close>/\<open>0X\<close> prefix selects radix 16 (radix 10 otherwise), and the longest prefix of
  digits of that radix is the value; with no such digit the result is \<open>NaN\<close>, here
  \<open>None\<close>. The value is an exact integer. White space is the ASCII part of the
  language's white space.
\<close>

definition is_white :: "char \<Rightarrow> bool" where
  "is_white c \<longleftrightarrow> c \<in> set [CHR '' '', CHR 0x09, CHR 0x0A, CHR 0x0B, CHR 0x0C, CHR 0x0D]"

definition digit_of :: "nat \<Rightarrow> char \<Rightarrow> nat option" where
  "digit_of radix c =
     (let n = (of_char c :: nat);
          d = (if 48 \<le> n \<and> n \<le> 57 then Some (n - 48)
               else if 97 \<le> n \<and> n \<le> 122 then Some (n - 87)
               else if 65 \<le> n \<and> n \<le> 90 then Some (n - 55)
               else None)
      in case d of None \<Rightarrow> None | Some v \<Rightarrow> if v < radix then Some v else None)"

fun digits_value :: "nat \<Rightarrow> string \<Rightarrow> nat \<Rightarrow> bool \<Rightarrow> nat option" where
  \<comment> \<open>Reads digits while they last; \<open>seen\<close> records that one was read.\<close>
  "digits_value radix [] acc seen = (if seen then Some acc else None)"
| "digits_value radix (c # cs) acc seen =
     (case digit_of radix c of
        Some d \<Rightarrow> digits_value radix cs (acc * radix + d) True
      | None \<Rightarrow> (if seen then Some acc else None))"

definition strip_sign :: "string \<Rightarrow> int \<times> string" where
  "strip_sign s =
     (case s of
        [] \<Rightarrow> (1, [])
      | c # cs \<Rightarrow> if c = CHR ''-'' then (- 1, cs) else if c = CHR ''+'' then (1, cs) else (1, s))"

definition strip_radix :: "string \<Rightarrow> nat \<times> string" where
  "strip_radix s =
     (case s of
        c # d # cs \<Rightarrow> if c = CHR ''0'' \<and> (d = CHR ''x'' \<or> d = CHR ''X'') then (16, cs) else (10, s)
      | _ \<Rightarrow> (10, s))"

definition parseInt :: "string \<Rightarrow> int option" where
  "parseInt inputString =
     (case strip_sign (dropWhile is_white inputString) of
        (sign, s) \<Rightarrow>
          (case strip_radix s of
             (radix, z) \<Rightarrow>
               (case digits_value radix z 0 False of
                  None \<Rightarrow> None
                | Some v \<Rightarrow> Some (sign * int v))))"

subsection \<open>The query and the repository\<close>

record district_row =
  district :: string
  taluka :: jsval
  crop :: jsval
  recorded_year :: "int option"
  area_ha :: "rat option"
  production_mt :: "rat option"
  yield_mt_per_ha :: "rat option"
  rainfall_mm :: "rat option"
  irrigation_coverage_percent :: "rat option"

datatype filter_clause = Ilike string string | Eq_int string int

record stats_query =
  from_table :: string
  order_by :: "(string \<times> bool) list"
  row_limit :: "int option"
  filters :: "filter_clause list"

record stats_result =
  data :: "district_row list option"
  error :: "string option"

record stats_params =
  district_param :: "string option"
  taluka_param :: "string option"
  crop_param :: "string option"
  year_param :: "string option"
  limit_param :: "string option"

definition truthy :: "string option \<Rightarrow> bool" where
  \<comment> \<open>A string or \<open>null\<close> in a condition: \<open>null\<close> and the empty string are falsy.\<close>
  "truthy v \<longleftrightarrow> (case v of None \<Rightarrow> False | Some s \<Rightarrow> s \<noteq> [])"

definition or_default :: "string option \<Rightarrow> string \<Rightarrow> string" where
  "or_default v d = (case v of None \<Rightarrow> d | Some s \<Rightarrow> if s = [] then d else s)"

definition ilike_filter :: "string \<Rightarrow> string option \<Rightarrow> filter_clause list" where
  \<comment> \<open>\<open>if (v) query = query.ilike(column, `%${v}%`)\<close>.\<close>
  "ilike_filter column v =
     (case v of
        None \<Rightarrow> []
      | Some s \<Rightarrow> if s = [] then [] else [Ilike column (''%'' @ s @ ''%'')])"

definition year_filter :: "string option \<Rightarrow> filter_clause list" where
  \<comment> \<open>Lines 33 to 38: the filter is added only when \<open>parseInt\<close> gives a number.\<close>
  "year_filter year =
     (if truthy year
      then (case year of
              None \<Rightarrow> []
            | Some y \<Rightarrow>
                (case parseInt y of
                   None \<Rightarrow> []
                 | Some yearNum \<Rightarrow> [Eq_int ''recorded_year'' yearNum]))
      else [])"

definition build_query :: "stats_params \<Rightarrow> stats_query" where
  "build_query ps =
     \<lparr> from_table = ''district_statistics'',
       order_by = [(''recorded_year'', False), (''district'', True)],
       row_limit = parseInt (or_default (limit_param ps) ''100''),
       filters = ilike_filter ''district'' (district_param ps)
               @ ilike_filter ''taluka'' (taluka_param ps)
               @ ilike_filter ''crop'' (crop_param ps)
               @ year_filter (year_param ps) \<rparr>"

subsection \<open>Aggregates\<close>

text \<open>The sums and averages are taken in exact arithmetic on rationals.\<close>

record aggregates =
  totalArea :: rat
  totalProduction :: rat
  avgYield :: rat
  avgRainfall :: rat
  avgIrrigationCoverage :: rat

definition Number_or_0 :: "rat option \<Rightarrow> rat" where
  \<comment> \<open>\<open>Number(v) || 0\<close>: \<open>Number(null)\<close> is 0, \<open>Number(undefined)\<close> is \<open>NaN\<close>, both falsy.\<close>
  "Number_or_0 v = js_or v 0"

definition reduce_sum :: "(district_row \<Rightarrow> rat option) \<Rightarrow> district_row list \<Rightarrow> rat" where
  \<comment> \<open>\<open>data.reduce((sum, r) => sum + (Number(r.field) || 0), 0)\<close>.\<close>
  "reduce_sum field rows = foldl (\<lambda>sum r. sum + Number_or_0 (field r)) 0 rows"

definition average :: "(district_row \<Rightarrow> rat option) \<Rightarrow> district_row list \<Rightarrow> rat" where
  "average field rows =
     (if length rows > 0 then reduce_sum field rows / of_nat (length rows) else 0)"

definition compute_aggregates :: "district_row list option \<Rightarrow> aggregates option" where
  \<comment> \<open>\<open>data ? {...} : null\<close>: an array is truthy, the empty one too.\<close>
  "compute_aggregates d =
     (case d of
        None \<Rightarrow> None
      | Some rows \<Rightarrow>
          Some \<lparr> totalArea = reduce_sum area_ha rows,
                 totalProduction = reduce_sum production_mt rows,
                 avgYield = average yield_mt_per_ha rows,
                 avgRainfall = average rainfall_mm rows,
                 avgIrrigationCoverage = average irrigation_coverage_percent rows \<rparr>)"

datatype stats_response =
  Stats_success "district_row list option" "aggregates option" nat
| Stats_failure string nat

definition GET_district_stats :: "(stats_query \<Rightarrow> stats_result) \<Rightarrow> stats_params \<Rightarrow> stats_response" where
  \<comment> \<open>The repository is the function \<open>run\<close>; a repository error is the 500 answer.\<close>
  "GET_district_stats run ps =
     (let r = run (build_query ps)
      in case error r of
           Some e \<Rightarrow> Stats_failure ''Failed to fetch district statistics'' 500
         | None \<Rightarrow>
             Stats_success (data r) (compute_aggregates (data r))
               (case data r of None \<Rightarrow> 0 | Some rows \<Rightarrow> length rows))"

section \<open>The schema script \<open>V2_create_fresh_database.sql\<close>\<close>

subsection \<open>\<open>calculate_soil_health_score\<close>\<close>

text \<open>
  A \<open>NUMERIC\<close> argument is a rational or \<open>NULL\<close> (\<open>None\<close>). A comparison with \<open>NULL\<close> is
  unknown, \<open>AND\<close> is three-valued, and \<open>IF\<close> and \<open>CASE WHEN\<close> take their branch only
  when the condition is true.
\<close>

definition sql_ge :: "rat option \<Rightarrow> rat \<Rightarrow> bool option" where
  "sql_ge x c = (case x of None \<Rightarrow> None | Some v \<Rightarrow> Some (v \<ge> c))"

definition sql_le :: "rat option \<Rightarrow> rat \<Rightarrow> bool option" where
  "sql_le x c = (case x of None \<Rightarrow> None | Some v \<Rightarrow> Some (v \<le> c))"

definition sql_and :: "bool option \<Rightarrow> bool option \<Rightarrow> bool option" where
  "sql_and a b =
     (if a = Some False \<or> b = Some False then Some False
      else if a = Some True \<and> b = Some True then Some True
      else None)"

definition is_true :: "bool option \<Rightarrow> bool" where
  "is_true c \<longleftrightarrow> c = Some True"

definition least3 :: "int \<Rightarrow> int \<Rightarrow> int \<Rightarrow> int" where
  \<comment> \<open>\<open>LEAST(a, b, c)\<close> of three values that are never \<open>NULL\<close>.\<close>
  "least3 a b c = min a (min b c)"

definition calculate_soil_health_score ::
  "rat option \<Rightarrow> rat option \<Rightarrow> rat option \<Rightarrow> rat option \<Rightarrow> rat option \<Rightarrow> int" where
  "calculate_soil_health_score ph nitrogen phosphorus potassium organic_matter =
     (let ph_score = (if is_true (sql_and (sql_ge ph 6.0) (sql_le ph 7.5)) then 40 else 10);
          nutrient_score =
            least3
              (if is_true (sql_and (sql_ge nitrogen 200) (sql_le nitrogen 400)) then 20 else 10)
              (if is_true (sql_and (sql_ge phosphorus 20) (sql_le phosphorus 60)) then 20 else 10)
              (if is_true (sql_and (sql_ge potassium 150) (sql_le potassium 300)) then 20 else 10);
          organic_score =
            (if is_true (sql_ge organic_matter 2.0) then 20
             else if is_true (sql_ge organic_matter 1.0) then 15
             else 5)
      in ph_score + nutrient_score + organic_score)"

text \<open>The score as the specification words it, on five numbers.\<close>

definition in_range :: "rat \<Rightarrow> rat \<Rightarrow> rat \<Rightarrow> bool" where
  "in_range lo hi x \<longleftrightarrow> lo \<le> x \<and> x \<le> hi"

definition spec_soil_score :: "rat \<Rightarrow> rat \<Rightarrow> rat \<Rightarrow> rat \<Rightarrow> rat \<Rightarrow> int" where
  "spec_soil_score pH n p k organic =
     (if in_range 6.0 7.5 pH then 40 else 10)
     + Min {if in_range 200 400 n then 20 else 10,
            if in_range 20 60 p then 20 else 10,
            if in_range 150 300 k then 20 else 10}
     + (if organic \<ge> 2.0 then 20 else if organic \<ge> 1.0 then 15 else 5)"

section \<open>The profile route \<open>profile/route.ts\<close>\<close>

text \<open>
  \<open>auth()\<close> yields a user id or \<open>null\<close>. The repository is a table of profile rows, unique
  in \<open>user_id\<close>, that may be failing. A handler returns its answer, the repository after
  it, and the steps it performed, in order.
\<close>

datatype json = J_undefined | J_null | J_bool bool | J_num rat | J_str string

definition js_truthy :: "json \<Rightarrow> bool" where
  "js_truthy v =
     (case v of
        J_undefined \<Rightarrow> False
      | J_null \<Rightarrow> False
      | J_bool b \<Rightarrow> b
      | J_num r \<Rightarrow> r \<noteq> 0
      | J_str s \<Rightarrow> s \<noteq> [])"

definition Number_of :: "(string \<Rightarrow> rat option) \<Rightarrow> json \<Rightarrow> json" where
  \<comment> \<open>\<open>Number(v)\<close>; the reading of a string is the parameter, \<open>NaN\<close> is sent as \<open>null\<close>.\<close>
  "Number_of read v =
     (case v of
        J_undefined \<Rightarrow> J_null
      | J_null \<Rightarrow> J_num 0
      | J_bool b \<Rightarrow> J_num (if b then 1 else 0)
      | J_num r \<Rightarrow> J_num r
      | J_str s \<Rightarrow> (case read s of None \<Rightarrow> J_null | Some r \<Rightarrow> J_num r))"

record profile_payload =
  full_name :: json
  phone :: json
  email :: json
  home_state :: json
  home_district :: json
  land_area :: json
  land_unit :: json
  primary_crop :: json
  experience_years :: json
  preferred_language :: json
  irrigation :: json

record profile_row =
  user_id :: string
  columns :: profile_payload

record profile_repo =
  farmer_profiles :: "profile_row list"
  failing :: bool

datatype step = Create_client | Select_profile string | Read_body | Upsert_profile string

datatype profile_response =
  Profile_success "profile_row option"
| Profile_failure string nat

definition no_user :: "string option \<Rightarrow> bool" where
  \<comment> \<open>\<open>!userId\<close>.\<close>
  "no_user userId \<longleftrightarrow> (case userId of None \<Rightarrow> True | Some u \<Rightarrow> u = [])"

definition upsert_row :: "(string \<Rightarrow> rat option) \<Rightarrow> string \<Rightarrow> profile_payload \<Rightarrow> profile_row" where
  "upsert_row read u payload =
     \<lparr> user_id = u,
       columns = payload
         \<lparr> land_area := (if js_truthy (land_area payload) then Number_of read (land_area payload) else J_null),
           experience_years :=
             (if js_truthy (experience_years payload) then Number_of read (experience_years payload)
              else J_null) \<rparr> \<rparr>"

definition profile_GET ::
  "string option \<Rightarrow> profile_repo \<Rightarrow> profile_response \<times> profile_repo \<times> step list" where
  "profile_GET userId repo =
     (case userId of
        None \<Rightarrow> (Profile_failure ''Unauthorized'' 401, repo, [])
      | Some u \<Rightarrow>
          if u = [] then (Profile_failure ''Unauthorized'' 401, repo, [])
          else if failing repo
          then (Profile_failure ''Failed to fetch profile'' 500, repo, [Create_client, Select_profile u])
          else (Profile_success (List.find (\<lambda>r. user_id r = u) (farmer_profiles repo)), repo,
                [Create_client, Select_profile u]))"

definition profile_POST ::
  "(string \<Rightarrow> rat option) \<Rightarrow> string option \<Rightarrow> profile_payload option \<Rightarrow> profile_repo \<Rightarrow>
     profile_response \<times> profile_repo \<times> step list" where
  \<comment> \<open>The body is \<open>None\<close> when \<open>request.json()\<close> throws, which the \<open>catch\<close> answers.\<close>
  "profile_POST read userId body repo =
     (case userId of
        None \<Rightarrow> (Profile_failure ''Unauthorized'' 401, repo, [])
      | Some u \<Rightarrow>
          if u = [] then (Profile_failure ''Unauthorized'' 401, repo, [])
          else (case body of
                  None \<Rightarrow> (Profile_failure ''Internal server error'' 500, repo, [Read_body])
                | Some payload \<Rightarrow>
                    if failing repo
                    then (Profile_failure ''Failed to save profile'' 500, repo,
                          [Read_body, Create_client, Upsert_profile u])
                    else (let row = upsert_row read u payload
                          in (Profile_success (Some row),
                              repo\<lparr>farmer_profiles :=
                                     filter (\<lambda>r. user_id r \<noteq> u) (farmer_profiles repo) @ [row]\<rparr>,
                              [Read_body, Create_client, Upsert_profile u]))))"

section \<open>Concrete inputs\<close>

definition obs :: "string \<Rightarrow> jsval \<Rightarrow> rat option \<Rightarrow> rat option \<Rightarrow> rat option \<Rightarrow> market_price" where
  \<comment> \<open>A row as parsed from JSON: each price is the double read from its decimal numeral.\<close>
  "obs name c modal mx mn =
     \<lparr> crop_name = Str name, commodity = c, modal_price = map_option json_number modal,
       max_price = map_option json_number mx, min_price = map_option json_number mn \<rparr>"

definition slow_rise :: "market_price list" where
  \<comment> \<open>A rise of 2.04 percent.\<close>
  "slow_rise = [obs ''wheat'' (Str ''wheat'') (Some 10204) None None,
                obs ''wheat'' (Str ''wheat'') (Some 10000) None None]"

definition fast_rise :: "market_price list" where
  \<comment> \<open>A rise that is 28.75 percent in exact arithmetic.\<close>
  "fast_rise = [obs ''wheat'' (Str ''wheat'') (Some 103) None None,
                obs ''wheat'' (Str ''wheat'') (Some 80) None None]"

definition edge_rise :: "market_price list" where
  \<comment> \<open>A rise that is 2 percent in exact arithmetic.\<close>
  "edge_rise = [obs ''wheat'' (Str ''wheat'') (Some (102 / 100)) None None,
                obs ''wheat'' (Str ''wheat'') (Some 1) None None]"

definition unpriced_previous :: "market_price list" where
  "unpriced_previous = [obs ''onion'' (Str ''onion'') (Some 500) None None,
                        obs ''onion'' (Str ''onion'') None (Some 0) None]"

definition min_only :: "market_price list" where
  \<comment> \<open>The newer observation has a minimum price only.\<close>
  "min_only = [obs ''rice'' (Str ''rice'') None None (Some 110),
               obs ''rice'' (Str ''rice'') (Some 100) None None]"

definition two_crops :: "market_price list" where
  \<comment> \<open>Rows of a table with no \<open>commodity\<close> column.\<close>
  "two_crops = [obs ''wheat'' Undefined (Some 110) None None,
                obs ''rice'' Undefined (Some 100) None None]"

definition stat_row :: "rat option \<Rightarrow> district_row" where
  "stat_row y =
     \<lparr> district = ''Pune'', taluka = Null, crop = Str ''rice'', recorded_year = Some 2023,
       area_ha = None, production_mt = None, yield_mt_per_ha = y, rainfall_mm = None,
       irrigation_coverage_percent = None \<rparr>"

definition no_filters :: stats_params where
  "no_filters =
     \<lparr> district_param = None, taluka_param = None, crop_param = None, year_param = None,
       limit_param = None \<rparr>"

definition empty_table :: "stats_query \<Rightarrow> stats_result" where
  \<comment> \<open>A repository in which no row matches: the answer is the empty array, with no error.\<close>
  "empty_table q = \<lparr> data = Some [], error = None \<rparr>"

definition zero_aggregates :: aggregates where
  "zero_aggregates =
     \<lparr> totalArea = 0, totalProduction = 0, avgYield = 0, avgRainfall = 0,
       avgIrrigationCoverage = 0 \<rparr>"

definition all_null :: "district_row \<Rightarrow> bool" where
  "all_null r \<longleftrightarrow>
     area_ha r = None \<and> production_mt r = None \<and> yield_mt_per_ha r = None
     \<and> rainfall_mm r = None \<and> irrigation_coverage_percent r = None"

definition blank_payload :: profile_payload where
  "blank_payload =
     \<lparr> full_name = J_str ''Asha'', phone = J_null, email = J_null, home_state = J_null,
       home_district = J_null, land_area = J_num 2, land_unit = J_str ''ha'',
       primary_crop = J_null, experience_years = J_null, preferred_language = J_null,
       irrigation = J_null \<rparr>"

definition one_profile :: profile_repo where
  "one_profile =
     \<lparr> farmer_profiles = [\<lparr> user_id = ''user_1'', columns = blank_payload \<rparr>], failing = False \<rparr>"

section \<open>Properties of the rounding to doubles\<close>

text \<open>
  The exponent found by \<open>floor_log2\<close> brackets its argument, \<open>round_half_even\<close> is within
  one half of its argument, and a finite \<open>rd x\<close> is a multiple of the spacing at \<open>x\<close>, at
  most half a spacing away from \<open>x\<close>.
\<close>

lemma bit_length_zero: "bit_length 0 = 0"
  by (subst bit_length.simps) simp

lemma bit_length_pos: "0 < n \<Longrightarrow> bit_length n = 1 + bit_length (n div 2)"
  by (subst bit_length.simps) simp

lemma bit_length_nonneg: "0 \<le> bit_length n"
  by (induction n rule: bit_length.induct) (subst bit_length.simps, simp)

lemma bit_length_bounds:
  "0 < n \<Longrightarrow> 2 ^ nat (bit_length n - 1) \<le> n \<and> n < 2 ^ nat (bit_length n)"
proof (induction n rule: bit_length.induct)
  case (1 n)
  show ?case
  proof (cases "n div 2 = 0")
    case True
    with "1.prems" have "n = 1" by linarith
    then show ?thesis
      by (simp add: bit_length_pos bit_length_zero)
  next
    case False
    with "1.prems" have half: "0 < n div 2" by linarith
    define b where "b = bit_length (n div 2)"
    from "1.IH" "1.prems" half have ih: "2 ^ nat (b - 1) \<le> n div 2 \<and> n div 2 < 2 ^ nat b"
      unfolding b_def by simp
    have bpos: "1 \<le> b"
    proof (rule ccontr)
      assume "\<not> 1 \<le> b"
      with bit_length_nonneg [of "n div 2"] have "b = 0" unfolding b_def by linarith
      with ih half show False by simp
    qed
    have len: "bit_length n = b + 1"
      using "1.prems" by (simp add: bit_length_pos b_def)
    have "nat b = Suc (nat (b - 1))"
      using bpos by simp
    then have p: "(2::int) ^ nat b = 2 * 2 ^ nat (b - 1)"
      by simp
    have lo: "2 ^ nat b \<le> n"
      using ih p by linarith
    have hi: "n < 2 * 2 ^ nat b"
      using ih by linarith
    have "nat (b + 1) = Suc (nat b)"
      using bpos by simp
    then have q: "(2::int) ^ nat (b + 1) = 2 * 2 ^ nat b"
      by simp
    from lo hi show ?thesis
      unfolding len q by simp
  qed
qed

lemma round_half_even_near: "\<bar>of_int (round_half_even m) - m\<bar> \<le> 1 / 2"
proof -
  have "of_int \<lfloor>m\<rfloor> \<le> m" and "m < of_int \<lfloor>m\<rfloor> + 1"
    by linarith+
  then show ?thesis
    unfolding round_half_even_def Let_def by (simp add: abs_le_iff)
qed

lemma two_power_le_rat:
  fixes n :: int
  assumes "2 ^ k \<le> n"
  shows "(2::rat) ^ k \<le> of_int n"
proof -
  have "(of_int (2 ^ k) :: rat) \<le> of_int n"
    using assms by (simp only: of_int_le_iff)
  then show ?thesis by simp
qed

lemma le_two_power_rat:
  fixes n :: int
  assumes "n \<le> 2 ^ k"
  shows "of_int n \<le> (2::rat) ^ k"
proof -
  have "(of_int n :: rat) \<le> of_int (2 ^ k)"
    using assms by (simp only: of_int_le_iff)
  then show ?thesis by simp
qed

lemma floor_log2_bracket:
  assumes "0 < a"
  shows "pow2 (floor_log2 a) \<le> a \<and> a < pow2 (floor_log2 a + 1)"
proof (cases "1 \<le> a")
  case True
  define f where "f = \<lfloor>a\<rfloor>"
  have fpos: "0 < f"
    using True unfolding f_def by linarith
  have fa: "of_int f \<le> a" and af: "a < of_int f + 1"
    unfolding f_def by linarith+
  from bit_length_bounds [OF fpos]
  have lo: "2 ^ nat (bit_length f - 1) \<le> f" and hi: "f + 1 \<le> 2 ^ nat (bit_length f)"
    by linarith+
  have one: "1 \<le> bit_length f"
  proof (rule ccontr)
    assume "\<not> 1 \<le> bit_length f"
    with bit_length_nonneg [of f] have "bit_length f = 0" by linarith
    with hi fpos show False by simp
  qed
  have e: "floor_log2 a = bit_length f - 1"
    using True by (simp add: floor_log2_def f_def)
  have pl: "pow2 (bit_length f - 1) = 2 ^ nat (bit_length f - 1)"
    using one by (simp add: pow2_def)
  have ph: "pow2 (bit_length f - 1 + 1) = 2 ^ nat (bit_length f)"
    using one by (simp add: pow2_def)
  from two_power_le_rat [OF lo] fa have l: "2 ^ nat (bit_length f - 1) \<le> a"
    by linarith
  from le_two_power_rat [OF hi] af have h: "a < 2 ^ nat (bit_length f)"
    by simp
  from l h show ?thesis
    unfolding e pl ph by blast
next
  case False
  define c where "c = \<lceil>1 / a\<rceil>"
  define k where "k = bit_length (c - 1)"
  from False assms have inv: "1 < 1 / a"
    by simp
  have c1: "of_int c - 1 < 1 / a" and c2: "1 / a \<le> of_int c"
    unfolding c_def by linarith+
  have cpos: "0 < c - 1"
    using inv c2 by linarith
  from bit_length_bounds [OF cpos]
  have lo: "2 ^ nat (k - 1) \<le> c - 1" and hi: "c \<le> 2 ^ nat k"
    unfolding k_def by linarith+
  have one: "1 \<le> k"
  proof (rule ccontr)
    assume "\<not> 1 \<le> k"
    with bit_length_nonneg [of "c - 1"] have "k = 0" unfolding k_def by linarith
    with hi cpos show False by simp
  qed
  have e: "floor_log2 a = - k"
    using False by (simp add: floor_log2_def c_def k_def)
  from le_two_power_rat [OF hi] c2 have u: "1 / a \<le> 2 ^ nat k"
    by linarith
  have l: "1 / 2 ^ nat k \<le> a"
  proof -
    have "1 \<le> a * 2 ^ nat k"
      using u assms by (simp add: field_simps)
    then show ?thesis
      by (simp add: field_simps)
  qed
  from two_power_le_rat [OF lo] c1 have v: "2 ^ nat (k - 1) < 1 / a"
    by simp
  have h: "a < 1 / 2 ^ nat (k - 1)"
  proof -
    have "a * 2 ^ nat (k - 1) < 1"
      using v assms by (simp add: field_simps)
    then show ?thesis
      by (simp add: field_simps)
  qed
  have pl: "pow2 (- k) = 1 / 2 ^ nat k"
    using one by (simp add: pow2_def)
  have ph: "pow2 (- k + 1) = 1 / 2 ^ nat (k - 1)"
    using one by (cases "k = 1") (simp_all add: pow2_def)
  from l h show ?thesis
    unfolding e pl ph by blast
qed

lemma pow2_pos: "0 < pow2 k"
  by (simp add: pow2_def)

lemma rd_zero: "rd 0 = Finite 0"
  by (simp add: rd_def)

lemma rd_nearest_multiple:
  assumes "rd x = Finite y" and "q = pow2 (max (floor_log2 \<bar>x\<bar>) (- 1022) - 52)"
  shows "\<exists>n::int. y = of_int n * q \<and> \<bar>y - x\<bar> \<le> q / 2"
proof (cases "x = 0")
  case True
  with assms(1) have "y = 0" by (simp add: rd_def)
  with True pow2_pos [of "max (floor_log2 \<bar>x\<bar>) (- 1022) - 52"] show ?thesis
    unfolding assms(2) by (intro exI [of _ 0]) simp
next
  case False
  define n where "n = round_half_even (\<bar>x\<bar> / q)"
  have qpos: "0 < q"
    unfolding assms(2) by (rule pow2_pos)
  from assms(1) False have y: "y = sgn x * of_int n * q"
    unfolding rd_def Let_def n_def assms(2) by (simp split: if_splits)
  have "\<bar>of_int n - \<bar>x\<bar> / q\<bar> \<le> 1 / 2"
    unfolding n_def by (rule round_half_even_near)
  then have "\<bar>of_int n - \<bar>x\<bar> / q\<bar> * q \<le> 1 / 2 * q"
    using qpos by (simp only: mult_le_cancel_right_pos)
  moreover have "\<bar>of_int n - \<bar>x\<bar> / q\<bar> * q = \<bar>of_int n * q - \<bar>x\<bar>\<bar>"
  proof -
    have "\<bar>of_int n - \<bar>x\<bar> / q\<bar> * q = \<bar>(of_int n - \<bar>x\<bar> / q) * q\<bar>"
      using qpos by (simp add: abs_mult)
    also have "(of_int n - \<bar>x\<bar> / q) * q = of_int n * q - \<bar>x\<bar>"
      using qpos by (simp add: field_simps)
    finally show ?thesis .
  qed
  ultimately have near: "\<bar>of_int n * q - \<bar>x\<bar>\<bar> \<le> q / 2"
    by simp
  have "\<bar>y - x\<bar> = \<bar>of_int n * q - \<bar>x\<bar>\<bar>"
  proof (cases "0 < x")
    case True
    then show ?thesis by (simp add: y)
  next
    case neg: False
    with False have "x < 0" by simp
    then have "y - x = - (of_int n * q - \<bar>x\<bar>)"
      by (simp add: y)
    then show ?thesis by (simp only: abs_minus)
  qed
  with near have "\<bar>y - x\<bar> \<le> q / 2" by simp
  moreover have "y = of_int (if 0 < x then n else - n) * q"
    using False by (simp add: y sgn_if)
  ultimately show ?thesis by blast
qed

section \<open>Properties of the trend annotation\<close>

lemma processedPrices_nth:
  "index < length array \<Longrightarrow>
     processedPrices array ! index = process_price (array ! index) index array"
  by (simp add: processedPrices_def)

lemma floor_half: "\<lfloor>1 / 2 :: rat\<rfloor> = 0"
  by (rule floor_unique) simp_all

lemma toFixed1_zero: "toFixed1 (Finite 0) = Finite 0"
  by (simp add: floor_half json_number_def rd_def)

lemma round_tenth_near:
  fixes y :: rat
  shows "\<bar>of_int \<lfloor>y * 10 + 1 / 2\<rfloor> / 10 - y\<bar> \<le> 1 / 20"
proof -
  define n :: rat where "n = of_int \<lfloor>y * 10 + 1 / 2\<rfloor>"
  have lo: "n \<le> y * 10 + 1 / 2"
    unfolding n_def by (rule of_int_floor_le)
  have hi: "y * 10 + 1 / 2 < n + 1"
    unfolding n_def by linarith
  from lo hi have "\<bar>n / 10 - y\<bar> \<le> 1 / 20"
    by linarith
  then show ?thesis
    by (simp add: n_def)
qed

lemma toFixed1_one_decimal:
  assumes "\<bar>x\<bar> < 10 ^ 21"
  shows "\<exists>n::int. toFixed1 (Finite x) = json_number (of_int n / 10) \<and> \<bar>of_int n / 10 - x\<bar> \<le> 1 / 20"
proof (cases "x < 0")
  case True
  let ?n = "- \<lfloor>(- x) * 10 + 1 / 2\<rfloor>"
  have v: "toFixed1 (Finite x) = json_number (of_int ?n / 10)"
    using assms True by simp
  have "\<bar>of_int ?n / 10 - x\<bar> = \<bar>of_int \<lfloor>(- x) * 10 + 1 / 2\<rfloor> / 10 - (- x)\<bar>"
    by (simp add: abs_minus_commute)
  with round_tenth_near [of "- x"] have "\<bar>of_int ?n / 10 - x\<bar> \<le> 1 / 20"
    by simp
  with v show ?thesis by blast
next
  case False
  let ?n = "\<lfloor>x * 10 + 1 / 2\<rfloor>"
  have v: "toFixed1 (Finite x) = json_number (of_int ?n / 10)"
    using assms False by simp
  with round_tenth_near [of x] show ?thesis by blast
qed

lemma classify_up: "classify c = ''up'' \<longleftrightarrow> fl_less (Finite 2) c"
  by (simp add: classify_def)

lemma below_not_above: "fl_less c (Finite (- 2)) \<Longrightarrow> \<not> fl_less (Finite 2) c"
  by (cases c) simp_all

lemma classify_down: "classify c = ''down'' \<longleftrightarrow> fl_less c (Finite (- 2))"
  using below_not_above [of c] by (auto simp add: classify_def)

lemma classify_stable:
  "classify c = ''stable'' \<longleftrightarrow> \<not> fl_less (Finite 2) c \<and> \<not> fl_less c (Finite (- 2))"
  by (simp add: classify_def)

lemma process_price_found:
  assumes "previousPrice array index price = Some previous"
    and "fl_less (Finite 0) (price_chain previous)"
  shows "trend (process_price price index array)
           = classify (fl_mul (fl_div (fl_sub (price_chain price) (price_chain previous))
                                 (price_chain previous)) (Finite 100))"
    and "change_percent (process_price price index array)
           = toFixed1 (fl_mul (fl_div (fl_sub (price_chain price) (price_chain previous))
                                 (price_chain previous)) (Finite 100))"
  using assms by (simp_all add: process_price_def trend_change_def Let_def)

lemma process_price_flat:
  assumes "previousPrice array index price = None \<or>
      (\<exists>previous. previousPrice array index price = Some previous
          \<and> \<not> fl_less (Finite 0) (price_chain previous))"
  shows "trend (process_price price index array) = ''stable''"
    and "change_percent (process_price price index array) = Finite 0"
  using assms
  by (auto simp add: process_price_def trend_change_def Let_def toFixed1_zero
      simp del: toFixed1.simps)

lemma find_first_match:
  assumes "j < length xs" "P (xs ! j)" "\<forall>k<j. \<not> P (xs ! k)"
  shows "List.find P xs = Some (xs ! j)"
  using assms
proof (induction xs arbitrary: j)
  case Nil
  then show ?case by simp
next
  case (Cons x xs)
  show ?case
  proof (cases j)
    case 0
    with Cons.prems show ?thesis by simp
  next
    case (Suc i)
    from Cons.prems(3) Suc have nx: "\<not> P x" by auto
    from Cons.prems Suc have "i < length xs" "P (xs ! i)" "\<forall>k<i. \<not> P (xs ! k)"
      by auto
    then have "List.find P xs = Some (xs ! i)" by (rule Cons.IH)
    with nx Suc show ?thesis by simp
  qed
qed

lemma previousPrice_None_iff:
  "previousPrice array index price = None \<longleftrightarrow>
     (\<forall>j. index < j \<and> j < length array \<longrightarrow> \<not> same_crop price (array ! j))"
proof -
  have "previousPrice array index price = None \<longleftrightarrow>
          (\<forall>x \<in> set (drop (index + 1) array). \<not> same_crop price x)"
    by (auto simp add: previousPrice_def find_None_iff)
  also have "\<dots> \<longleftrightarrow> (\<forall>k < length array - (index + 1). \<not> same_crop price (array ! (index + 1 + k)))"
    by (simp add: all_set_conv_all_nth)
  also have "\<dots> \<longleftrightarrow> (\<forall>j. index < j \<and> j < length array \<longrightarrow> \<not> same_crop price (array ! j))"
  proof (intro iffI allI impI)
    fix j assume h: "\<forall>k < length array - (index + 1). \<not> same_crop price (array ! (index + 1 + k))"
      and j: "index < j \<and> j < length array"
    then have "j - (index + 1) < length array - (index + 1)" by linarith
    with h have "\<not> same_crop price (array ! (index + 1 + (j - (index + 1))))" by blast
    with j show "\<not> same_crop price (array ! j)" by simp
  next
    fix k assume h: "\<forall>j. index < j \<and> j < length array \<longrightarrow> \<not> same_crop price (array ! j)"
      and k: "k < length array - (index + 1)"
    then have "index < index + 1 + k \<and> index + 1 + k < length array" by linarith
    with h show "\<not> same_crop price (array ! (index + 1 + k))" by blast
  qed
  finally show ?thesis .
qed

text \<open>The doubles read from some decimal numerals.\<close>

lemma json_number_tenth: "json_number (1 / 10) = Finite (3602879701896397 / 36028797018963968)"
  by code_simp

lemma json_number_102: "json_number (102 / 100) = Finite (4593671619917906 / 4503599627370496)"
  by code_simp

lemma round_half_even_ties:
  "rd (2 ^ 53 + 1) = Finite (2 ^ 53) \<and> rd (2 ^ 53 + 3) = Finite (2 ^ 53 + 4)"
  by code_simp

lemma json_number_integers:
  "json_number 1 = Finite 1 \<and> json_number 80 = Finite 80 \<and> json_number 100 = Finite 100
   \<and> json_number 103 = Finite 103 \<and> json_number 110 = Finite 110 \<and> json_number 500 = Finite 500
   \<and> json_number 10000 = Finite 10000 \<and> json_number 10204 = Finite 10204"
  by code_simp

subsection \<open>The label follows the change before rounding\<close>

text \<open>
  Claim C1, as stated, fails: the label is taken from the change before it is rounded to
  one decimal. A rise from 10000 to 10204 is about 2.04 percent: the label is \<open>up\<close>, the
  reported \<open>change_percent\<close> is 2, which is not above 2.
\<close>

theorem trend_label_disagrees_with_rounded_change:
  "previousPrice slow_rise 0 (slow_rise ! 0) = Some (slow_rise ! 1)
   \<and> fl_less (Finite 0) (price_chain (slow_rise ! 1))
   \<and> trend (processedPrices slow_rise ! 0) = ''up''
   \<and> change_percent (processedPrices slow_rise ! 0) = Finite 2
   \<and> \<not> (trend (processedPrices slow_rise ! 0) = ''up''
          \<longleftrightarrow> fl_less (Finite 2) (change_percent (processedPrices slow_rise ! 0)))"
  by code_simp

text \<open>
  Claim C1, amended: when the previous price is positive, the reported \<open>change_percent\<close>
  is the double \<open>(current - previous) / previous * 100\<close> rounded to one decimal (when it is
  finite and below \<open>10^21\<close> in magnitude: the double read from a multiple of one tenth
  that is at most one twentieth away from it), and the label is \<open>up\<close> exactly when that
  double, before rounding, is above 2, \<open>down\<close> exactly when it is below -2, \<open>stable\<close>
  otherwise.
\<close>

theorem trend_from_unrounded_change:
  assumes "index < length array"
    and "previousPrice array index (array ! index) = Some previous"
    and "fl_less (Finite 0) (price_chain previous)"
    and "changePercent =
           fl_mul (fl_div (fl_sub (price_chain (array ! index)) (price_chain previous))
                     (price_chain previous)) (Finite 100)"
  shows "change_percent (processedPrices array ! index) = toFixed1 changePercent
       \<and> (\<forall>x. changePercent = Finite x \<and> \<bar>x\<bar> < 10 ^ 21 \<longrightarrow>
            (\<exists>n::int. change_percent (processedPrices array ! index) = json_number (of_int n / 10)
                \<and> \<bar>of_int n / 10 - x\<bar> \<le> 1 / 20))
       \<and> (trend (processedPrices array ! index) = ''up'' \<longleftrightarrow> fl_less (Finite 2) changePercent)
       \<and> (trend (processedPrices array ! index) = ''down'' \<longleftrightarrow> fl_less changePercent (Finite (- 2)))
       \<and> (trend (processedPrices array ! index) = ''stable'' \<longleftrightarrow>
            \<not> fl_less (Finite 2) changePercent \<and> \<not> fl_less changePercent (Finite (- 2)))"
proof -
  have nth: "processedPrices array ! index = process_price (array ! index) index array"
    using assms(1) by (rule processedPrices_nth)
  have t: "trend (processedPrices array ! index) = classify changePercent"
    unfolding nth assms(4) using assms(2,3) by (rule process_price_found(1))
  have c: "change_percent (processedPrices array ! index) = toFixed1 changePercent"
    unfolding nth assms(4) using assms(2,3) by (rule process_price_found(2))
  have d: "\<forall>x. changePercent = Finite x \<and> \<bar>x\<bar> < 10 ^ 21 \<longrightarrow>
            (\<exists>n::int. change_percent (processedPrices array ! index) = json_number (of_int n / 10)
                \<and> \<bar>of_int n / 10 - x\<bar> \<le> 1 / 20)"
    unfolding c using toFixed1_one_decimal by blast
  from c d show ?thesis
    unfolding t by (simp only: classify_up classify_down classify_stable simp_thms)
qed

theorem trend_from_unrounded_change_witness:
  "0 < length fast_rise
   \<and> previousPrice fast_rise 0 (fast_rise ! 0) = Some (fast_rise ! 1)
   \<and> price_chain (fast_rise ! 1) = Finite 80
   \<and> price_chain (fast_rise ! 0) = Finite 103
   \<and> fl_mul (fl_div (fl_sub (Finite 103) (Finite 80)) (Finite 80)) (Finite 100)
       = Finite (8092405580431359 / 281474976710656)
   \<and> change_percent (processedPrices fast_rise ! 0) = json_number (287 / 10)
   \<and> trend (processedPrices fast_rise ! 0) = ''up''"
proof -
  have len: "0 < length fast_rise"
    by (simp add: fast_rise_def)
  have prev: "previousPrice fast_rise 0 (fast_rise ! 0) = Some (fast_rise ! 1)"
    by (simp add: fast_rise_def previousPrice_def same_crop_def obs_def)
  have old: "price_chain (fast_rise ! 1) = Finite 80"
    by (simp add: fast_rise_def price_chain_def dbl_or_def obs_def json_number_integers)
  have new: "price_chain (fast_rise ! 0) = Finite 103"
    by (simp add: fast_rise_def price_chain_def dbl_or_def obs_def json_number_integers)
  have pos: "fl_less (Finite 0) (price_chain (fast_rise ! 1))"
    unfolding old by simp
  have pct: "fl_mul (fl_div (fl_sub (Finite 103) (Finite 80)) (Finite 80)) (Finite 100)
       = Finite (8092405580431359 / 281474976710656)"
    by code_simp
  have shown: "toFixed1 (Finite (8092405580431359 / 281474976710656)) = json_number (287 / 10)"
    by code_simp
  have above: "fl_less (Finite 2) (Finite (8092405580431359 / 281474976710656))"
    by simp
  from trend_from_unrounded_change [OF len prev pos refl]
  have "change_percent (processedPrices fast_rise ! 0) = json_number (287 / 10)
      \<and> trend (processedPrices fast_rise ! 0) = ''up''"
    unfolding old new pct shown using above by blast
  with len prev old new pct show ?thesis by blast
qed

text \<open>
  A rise from 1 to 1.02 is 2 percent in exact arithmetic; in doubles it is a little
  above 2, the label is \<open>up\<close> and the reported change is 2.
\<close>

lemma edge_rise_is_up:
  "trend (processedPrices edge_rise ! 0) = ''up''
   \<and> change_percent (processedPrices edge_rise ! 0) = Finite 2"
  by code_simp

subsection \<open>No older observation, or one priced at zero\<close>

text \<open>
  Claim C2: when the nearest older observation of the same series has the price 0 under
  the fallback chain, or when there is no such observation (as for a single observation),
  the label is \<open>stable\<close> and the reported change is 0, whatever the current price.
\<close>

theorem no_usable_previous_is_stable:
  assumes "index < length array"
    and "previousPrice array index (array ! index) = None
         \<or> (\<exists>previous. previousPrice array index (array ! index) = Some previous
                \<and> price_chain previous = Finite 0)"
  shows "trend (processedPrices array ! index) = ''stable''
       \<and> change_percent (processedPrices array ! index) = Finite 0"
proof -
  have nth: "processedPrices array ! index = process_price (array ! index) index array"
    using assms(1) by (rule processedPrices_nth)
  from assms(2) have flat: "previousPrice array index (array ! index) = None
      \<or> (\<exists>previous. previousPrice array index (array ! index) = Some previous
             \<and> \<not> fl_less (Finite 0) (price_chain previous))"
    by auto
  show ?thesis
    unfolding nth using process_price_flat [OF flat] by simp
qed

theorem no_usable_previous_is_stable_witness:
  "previousPrice unpriced_previous 0 (unpriced_previous ! 0) = Some (unpriced_previous ! 1)
   \<and> price_chain (unpriced_previous ! 1) = Finite 0
   \<and> price_chain (unpriced_previous ! 0) = Finite 500
   \<and> trend (processedPrices unpriced_previous ! 0) = ''stable''
   \<and> change_percent (processedPrices unpriced_previous ! 0) = Finite 0
   \<and> previousPrice [obs ''wheat'' Null (Some 700) None None] 0
        ([obs ''wheat'' Null (Some 700) None None] ! 0) = None
   \<and> trend (processedPrices [obs ''wheat'' Null (Some 700) None None] ! 0) = ''stable''
   \<and> change_percent (processedPrices [obs ''wheat'' Null (Some 700) None None] ! 0) = Finite 0"
proof -
  have len: "0 < length unpriced_previous"
    by (simp add: unpriced_previous_def)
  have prev: "previousPrice unpriced_previous 0 (unpriced_previous ! 0) = Some (unpriced_previous ! 1)"
    by (simp add: unpriced_previous_def previousPrice_def same_crop_def obs_def)
  have old: "price_chain (unpriced_previous ! 1) = Finite 0"
    by code_simp
  have new: "price_chain (unpriced_previous ! 0) = Finite 500"
    by code_simp
  have none: "previousPrice [obs ''wheat'' Null (Some 700) None None] 0
        ([obs ''wheat'' Null (Some 700) None None] ! 0) = None"
    by (simp add: previousPrice_def)
  have a: "trend (processedPrices unpriced_previous ! 0) = ''stable''
       \<and> change_percent (processedPrices unpriced_previous ! 0) = Finite 0"
  proof (rule no_usable_previous_is_stable [OF len])
    from prev old show "previousPrice unpriced_previous 0 (unpriced_previous ! 0) = None
         \<or> (\<exists>previous. previousPrice unpriced_previous 0 (unpriced_previous ! 0) = Some previous
                \<and> price_chain previous = Finite 0)"
      by blast
  qed
  have b: "trend (processedPrices [obs ''wheat'' Null (Some 700) None None] ! 0) = ''stable''
       \<and> change_percent (processedPrices [obs ''wheat'' Null (Some 700) None None] ! 0) = Finite 0"
  proof (rule no_usable_previous_is_stable)
    show "0 < length [obs ''wheat'' Null (Some 700) None None]" by simp
    from none show "previousPrice [obs ''wheat'' Null (Some 700) None None] 0
          ([obs ''wheat'' Null (Some 700) None None] ! 0) = None
         \<or> (\<exists>previous. previousPrice [obs ''wheat'' Null (Some 700) None None] 0
                ([obs ''wheat'' Null (Some 700) None None] ! 0) = Some previous
                \<and> price_chain previous = Finite 0)"
      by blast
  qed
  from a b prev old new none show ?thesis by blast
qed

subsection \<open>The change amount\<close>

text \<open>
  Claim C3 at an observation with a minimum price only: the fallback chain gives the
  current price 110 and the change 10 percent, so the claimed amount is
  \<open>round(110 * 10 / 100) = 11\<close>; the handler reports 0, since the amount's own chain
  stops after the maximum price.
\<close>

theorem change_amount_ignores_min_price:
  "price_chain (min_only ! 0) = Finite 110
   \<and> change_percent (processedPrices min_only ! 0) = Finite 10
   \<and> Math_round (fl_mul (price_chain (min_only ! 0)) (fl_div (Finite 10) (Finite 100))) = Finite 11
   \<and> change_amount (processedPrices min_only ! 0) = Finite 0"
  by code_simp

subsection \<open>Observations with no commodity field\<close>

text \<open>
  Claim C9: when the commodity field is absent on two observations (missing on both, or
  \<open>null\<close> on both), the test \<open>p.commodity === price.commodity\<close> holds, so the older one
  is selected as the previous record when no observation between them matches, whatever
  its crop name.
\<close>

theorem absent_commodity_joins_series:
  assumes "index < j" and "j < length array"
    and "commodity (array ! index) = Undefined \<or> commodity (array ! index) = Null"
    and "commodity (array ! j) = commodity (array ! index)"
    and "\<forall>k. index < k \<and> k < j \<longrightarrow> \<not> same_crop (array ! index) (array ! k)"
  shows "same_crop (array ! index) (array ! j)
       \<and> previousPrice array index (array ! index) = Some (array ! j)"
proof -
  have m: "same_crop (array ! index) (array ! j)"
    using assms(4) by (simp add: same_crop_def)
  let ?tail = "drop (index + 1) array"
  let ?i = "j - (index + 1)"
  have len: "?i < length ?tail"
    using assms(1,2) by simp
  have at: "?tail ! ?i = array ! j"
    using assms(1,2) by simp
  have before: "\<forall>k < ?i. \<not> same_crop (array ! index) (?tail ! k)"
  proof (intro allI impI)
    fix k assume "k < ?i"
    then have "index < index + 1 + k \<and> index + 1 + k < j" by linarith
    with assms(5) have "\<not> same_crop (array ! index) (array ! (index + 1 + k))" by blast
    moreover have "?tail ! k = array ! (index + 1 + k)"
      using \<open>k < ?i\<close> assms(2) by simp
    ultimately show "\<not> same_crop (array ! index) (?tail ! k)" by simp
  qed
  have here: "same_crop (array ! index) (?tail ! ?i)"
    unfolding at by (rule m)
  have "List.find (same_crop (array ! index)) ?tail = Some (?tail ! ?i)"
    using len here before by (rule find_first_match)
  then have "previousPrice array index (array ! index) = Some (array ! j)"
    unfolding previousPrice_def at .
  with m show ?thesis by blast
qed

theorem absent_commodity_joins_series_witness:
  "crop_name (two_crops ! 0) = Str ''wheat''
   \<and> crop_name (two_crops ! 1) = Str ''rice''
   \<and> commodity (two_crops ! 0) = Undefined
   \<and> commodity (two_crops ! 1) = Undefined
   \<and> same_crop (two_crops ! 0) (two_crops ! 1)
   \<and> previousPrice two_crops 0 (two_crops ! 0) = Some (two_crops ! 1)"
proof -
  have c0: "commodity (two_crops ! 0) = Undefined" and c1: "commodity (two_crops ! 1) = Undefined"
    and n0: "crop_name (two_crops ! 0) = Str ''wheat''" and n1: "crop_name (two_crops ! 1) = Str ''rice''"
    by (simp_all add: two_crops_def obs_def)
  have lt: "(0::nat) < 1" and len: "1 < length two_crops"
    by (simp_all add: two_crops_def)
  have absent: "commodity (two_crops ! 0) = Undefined \<or> commodity (two_crops ! 0) = Null"
    using c0 by blast
  have same: "commodity (two_crops ! 1) = commodity (two_crops ! 0)"
    unfolding c0 c1 ..
  have between: "\<forall>k. 0 < k \<and> k < 1 \<longrightarrow> \<not> same_crop (two_crops ! 0) (two_crops ! k)"
    by simp
  from absent_commodity_joins_series [OF lt len absent same between] c0 c1 n0 n1
  show ?thesis by blast
qed

section \<open>Properties of the regional statistics\<close>

lemma Number_or_0_absent: "Number_or_0 v = (case v of None \<Rightarrow> 0 | Some x \<Rightarrow> x)"
  by (simp add: Number_or_0_def js_or_def split: option.split)

lemma foldl_plus_sum_list:
  fixes a :: rat
  shows "foldl (\<lambda>sum r. sum + f r) a rows = a + sum_list (map f rows)"
  by (induction rows arbitrary: a) (simp_all add: add.assoc)

lemma reduce_sum_sum_list:
  "reduce_sum field rows = (\<Sum>r\<leftarrow>rows. case field r of None \<Rightarrow> 0 | Some v \<Rightarrow> v)"
  by (simp add: reduce_sum_def foldl_plus_sum_list Number_or_0_absent)

lemma average_nonempty:
  "rows \<noteq> [] \<Longrightarrow>
     average field rows
       = (\<Sum>r\<leftarrow>rows. case field r of None \<Rightarrow> 0 | Some v \<Rightarrow> v) / of_nat (length rows)"
  by (simp add: average_def reduce_sum_sum_list)

lemma reduce_sum_all_absent:
  "list_all (\<lambda>r. field r = None) rows \<Longrightarrow> reduce_sum field rows = 0"
  unfolding reduce_sum_sum_list by (induction rows) simp_all

lemma average_all_absent:
  "list_all (\<lambda>r. field r = None) rows \<Longrightarrow> average field rows = 0"
  by (simp add: average_def reduce_sum_all_absent)

lemma all_null_fields:
  assumes "list_all all_null rows"
  shows "list_all (\<lambda>r. area_ha r = None) rows"
    and "list_all (\<lambda>r. production_mt r = None) rows"
    and "list_all (\<lambda>r. yield_mt_per_ha r = None) rows"
    and "list_all (\<lambda>r. rainfall_mm r = None) rows"
    and "list_all (\<lambda>r. irrigation_coverage_percent r = None) rows"
  using assms by (simp_all add: list_all_iff all_null_def)

lemma compute_aggregates_all_null:
  assumes "list_all all_null rows"
  shows "compute_aggregates (Some rows) = Some zero_aggregates"
  using all_null_fields [OF assms]
  by (simp add: compute_aggregates_def zero_aggregates_def reduce_sum_all_absent average_all_absent)

lemma GET_district_stats_success:
  assumes "error (run (build_query ps)) = None"
  shows "GET_district_stats run ps =
           Stats_success (data (run (build_query ps)))
             (compute_aggregates (data (run (build_query ps))))
             (case data (run (build_query ps)) of None \<Rightarrow> 0 | Some rows \<Rightarrow> length rows)"
  using assms by (simp add: GET_district_stats_def Let_def)

subsection \<open>Averages over all returned rows\<close>

text \<open>
  Claim C4: for a non-empty array of returned rows, each reported average (yield,
  rainfall, irrigation coverage) is the sum of the field over all rows, an absent field
  counting as 0, divided by the number of all rows. Two rows with yields 10 and absent
  give the average 5.
\<close>

theorem averages_divide_by_row_count:
  assumes "error (run (build_query ps)) = None"
    and "data (run (build_query ps)) = Some rows"
    and "rows \<noteq> []"
  shows "\<exists>a. GET_district_stats run ps = Stats_success (Some rows) (Some a) (length rows)
       \<and> avgYield a
           = (\<Sum>r\<leftarrow>rows. case yield_mt_per_ha r of None \<Rightarrow> 0 | Some v \<Rightarrow> v) / of_nat (length rows)
       \<and> avgRainfall a
           = (\<Sum>r\<leftarrow>rows. case rainfall_mm r of None \<Rightarrow> 0 | Some v \<Rightarrow> v) / of_nat (length rows)
       \<and> avgIrrigationCoverage a
           = (\<Sum>r\<leftarrow>rows. case irrigation_coverage_percent r of None \<Rightarrow> 0 | Some v \<Rightarrow> v)
               / of_nat (length rows)"
proof -
  obtain a where a: "compute_aggregates (Some rows) = Some a"
    by (simp add: compute_aggregates_def)
  have "GET_district_stats run ps = Stats_success (Some rows) (Some a) (length rows)"
    using GET_district_stats_success [of run ps, OF assms(1)] by (simp add: assms(2) a)
  moreover from a have "avgYield a = average yield_mt_per_ha rows"
    and "avgRainfall a = average rainfall_mm rows"
    and "avgIrrigationCoverage a = average irrigation_coverage_percent rows"
    by (auto simp add: compute_aggregates_def)
  ultimately show ?thesis
    using assms(3) by (simp add: average_nonempty)
qed

theorem averages_divide_by_row_count_witness:
  "\<exists>a. GET_district_stats (\<lambda>q. \<lparr> data = Some [stat_row (Some 10), stat_row None], error = None \<rparr>)
          no_filters
        = Stats_success (Some [stat_row (Some 10), stat_row None]) (Some a) 2
      \<and> avgYield a = 5"
proof -
  let ?run = "\<lambda>q::stats_query. \<lparr> data = Some [stat_row (Some 10), stat_row None], error = None \<rparr>"
  have e: "error (?run (build_query no_filters)) = None"
    and d: "data (?run (build_query no_filters)) = Some [stat_row (Some 10), stat_row None]"
    and n: "[stat_row (Some 10), stat_row None] \<noteq> []"
    by simp_all
  from averages_divide_by_row_count [of ?run no_filters, OF e d n]
  obtain a where g: "GET_district_stats ?run no_filters
        = Stats_success (Some [stat_row (Some 10), stat_row None]) (Some a)
            (length [stat_row (Some 10), stat_row None])"
    and y: "avgYield a
        = (\<Sum>r\<leftarrow>[stat_row (Some 10), stat_row None].
             case yield_mt_per_ha r of None \<Rightarrow> 0 | Some v \<Rightarrow> v)
          / of_nat (length [stat_row (Some 10), stat_row None])"
    by blast
  from y have "avgYield a = 5"
    by (simp add: stat_row_def)
  with g show ?thesis
    by (intro exI [of _ a]) simp
qed

subsection \<open>No matching row\<close>

text \<open>
  Claim C5, as stated, fails: when no row matches the repository answers with the empty
  array, which is truthy, so the response carries an object of zeros, not \<open>null\<close>.
\<close>

theorem no_match_gives_zero_object:
  "data (empty_table (build_query no_filters)) = Some []
   \<and> GET_district_stats empty_table no_filters = Stats_success (Some []) (Some zero_aggregates) 0
   \<and> compute_aggregates (data (empty_table (build_query no_filters))) \<noteq> None"
  by (simp add: GET_district_stats_def empty_table_def compute_aggregates_def average_def
      reduce_sum_def zero_aggregates_def)

text \<open>
  Claim C5, amended: when the repository reports no error, rows whose numeric fields are
  all absent, and the empty array among them, give a success response with an object
  of zeros and the row count; \<open>null\<close> data gives a success response with \<open>null\<close>
  aggregates and count 0. The aggregation has no failing case.
\<close>

theorem empty_or_null_input_aggregates:
  assumes "error (run (build_query ps)) = None"
  shows "(\<forall>rows. data (run (build_query ps)) = Some rows \<and> list_all all_null rows \<longrightarrow>
            GET_district_stats run ps
              = Stats_success (Some rows) (Some zero_aggregates) (length rows))
       \<and> (data (run (build_query ps)) = Some [] \<longrightarrow>
            GET_district_stats run ps = Stats_success (Some []) (Some zero_aggregates) 0)
       \<and> (data (run (build_query ps)) = None \<longrightarrow>
            GET_district_stats run ps = Stats_success None None 0)"
  using GET_district_stats_success [of run ps, OF assms]
  by (auto simp add: compute_aggregates_all_null) (simp add: compute_aggregates_def)

theorem empty_or_null_input_aggregates_witness:
  "GET_district_stats empty_table no_filters = Stats_success (Some []) (Some zero_aggregates) 0
   \<and> GET_district_stats (\<lambda>q. \<lparr> data = Some [stat_row None], error = None \<rparr>) no_filters
       = Stats_success (Some [stat_row None]) (Some zero_aggregates) 1
   \<and> GET_district_stats (\<lambda>q. \<lparr> data = None, error = None \<rparr>) no_filters
       = Stats_success None None 0"
proof -
  let ?one = "\<lambda>q::stats_query. \<lparr> data = Some [stat_row None], error = None \<rparr>"
  let ?null = "\<lambda>q::stats_query. \<lparr> data = None :: district_row list option, error = None \<rparr>"
  have e1: "error (empty_table (build_query no_filters)) = None"
    and d1: "data (empty_table (build_query no_filters)) = Some []"
    by (simp_all add: empty_table_def)
  have e2: "error (?one (build_query no_filters)) = None"
    and d2: "data (?one (build_query no_filters)) = Some [stat_row None] \<and> list_all all_null [stat_row None]"
    by (simp_all add: all_null_def stat_row_def)
  have e3: "error (?null (build_query no_filters)) = None"
    and d3: "data (?null (build_query no_filters)) = None"
    by simp_all
  from empty_or_null_input_aggregates [of empty_table no_filters, OF e1] d1
  have a: "GET_district_stats empty_table no_filters = Stats_success (Some []) (Some zero_aggregates) 0"
    by blast
  from empty_or_null_input_aggregates [of ?one no_filters, OF e2] d2
  have b: "GET_district_stats ?one no_filters
       = Stats_success (Some [stat_row None]) (Some zero_aggregates) (length [stat_row None])"
    by blast
  from empty_or_null_input_aggregates [of ?null no_filters, OF e3] d3
  have c: "GET_district_stats ?null no_filters = Stats_success None None 0"
    by blast
  from a b c show ?thesis by simp
qed

subsection \<open>A year that does not parse\<close>

lemma year_filter_unparsable: "parseInt y = None \<Longrightarrow> year_filter (Some y) = []"
  by (simp add: year_filter_def)

lemma year_filter_absent: "year_filter None = []"
  by (simp add: year_filter_def truthy_def)

text \<open>
  Claim C10: when \<open>parseInt\<close> of the year parameter is \<open>NaN\<close>, no year filter is added,
  the query is the one built without a year parameter, and so is the response; no
  error is raised for the parameter.
\<close>

theorem unparsable_year_is_ignored:
  assumes "parseInt y = None"
  shows "year_filter (Some y) = []
       \<and> build_query (ps\<lparr>year_param := Some y\<rparr>) = build_query (ps\<lparr>year_param := None\<rparr>)
       \<and> GET_district_stats run (ps\<lparr>year_param := Some y\<rparr>)
           = GET_district_stats run (ps\<lparr>year_param := None\<rparr>)"
proof -
  have f: "year_filter (Some y) = []"
    using assms by (rule year_filter_unparsable)
  have q: "build_query (ps\<lparr>year_param := Some y\<rparr>) = build_query (ps\<lparr>year_param := None\<rparr>)"
    by (simp add: build_query_def f year_filter_absent)
  have "GET_district_stats run (ps\<lparr>year_param := Some y\<rparr>)
           = GET_district_stats run (ps\<lparr>year_param := None\<rparr>)"
    unfolding GET_district_stats_def q ..
  with f q show ?thesis by blast
qed

lemma parseInt_abc: "parseInt ''abc'' = None"
  by code_simp

lemma parseInt_prefix: "parseInt ''2020abc'' = Some 2020"
  by code_simp

theorem unparsable_year_is_ignored_witness:
  "parseInt ''abc'' = None
   \<and> (\<forall>run ps. GET_district_stats run (ps\<lparr>year_param := Some ''abc''\<rparr>)
                 = GET_district_stats run (ps\<lparr>year_param := None\<rparr>))
   \<and> filters (build_query (no_filters\<lparr>year_param := Some ''abc''\<rparr>)) = []"
proof -
  have p: "parseInt ''abc'' = None"
    by (rule parseInt_abc)
  have "filters (build_query (no_filters\<lparr>year_param := None\<rparr>)) = []"
    by (simp add: build_query_def no_filters_def ilike_filter_def year_filter_absent)
  with unparsable_year_is_ignored [OF p] p show ?thesis
    by simp
qed

section \<open>Properties of the soil health score\<close>

lemma range_test:
  "is_true (sql_and (sql_ge (Some x) lo) (sql_le (Some x) hi)) \<longleftrightarrow> in_range lo hi x"
  by (auto simp add: is_true_def sql_and_def sql_ge_def sql_le_def in_range_def)

lemma floor_test: "is_true (sql_ge (Some x) lo) \<longleftrightarrow> lo \<le> x"
  by (simp add: is_true_def sql_ge_def)

lemma Min_three: "Min {a, b, c :: int} = least3 a b c"
  by (simp add: least3_def)

lemma score_on_numbers:
  "calculate_soil_health_score (Some pH) (Some n) (Some p) (Some k) (Some organic)
     = spec_soil_score pH n p k organic"
  unfolding calculate_soil_health_score_def spec_soil_score_def Let_def range_test floor_test Min_three
  by (rule refl)

lemma least3_bounds:
  assumes "a = 10 \<or> a = 20" "b = 10 \<or> b = 20" "c = 10 \<or> c = 20"
  shows "10 \<le> least3 a b c \<and> least3 a b c \<le> 20"
  using assms unfolding least3_def by linarith

lemma score_bounds:
  "25 \<le> calculate_soil_health_score a b c d e \<and> calculate_soil_health_score a b c d e \<le> 80"
proof -
  define ph_score :: int where
    "ph_score = (if is_true (sql_and (sql_ge a 6.0) (sql_le a 7.5)) then 40 else 10)"
  define nutrient_score :: int where
    "nutrient_score = least3
              (if is_true (sql_and (sql_ge b 200) (sql_le b 400)) then 20 else 10)
              (if is_true (sql_and (sql_ge c 20) (sql_le c 60)) then 20 else 10)
              (if is_true (sql_and (sql_ge d 150) (sql_le d 300)) then 20 else 10)"
  define organic_score :: int where
    "organic_score = (if is_true (sql_ge e 2.0) then 20
             else if is_true (sql_ge e 1.0) then 15 else 5)"
  have s: "calculate_soil_health_score a b c d e = ph_score + nutrient_score + organic_score"
    by (simp add: calculate_soil_health_score_def ph_score_def nutrient_score_def organic_score_def)
  have p: "10 \<le> ph_score \<and> ph_score \<le> 40"
    by (simp add: ph_score_def)
  have n: "10 \<le> nutrient_score \<and> nutrient_score \<le> 20"
    unfolding nutrient_score_def by (rule least3_bounds) simp_all
  have g: "5 \<le> organic_score \<and> organic_score \<le> 20"
    by (simp add: organic_score_def)
  from p n g show ?thesis
    unfolding s by linarith
qed

text \<open>
  Claim C6: on five numbers the function is the score of the specification: the pH
  component, plus the minimum of the three nutrient components, plus the organic-matter
  component. For all arguments, \<open>NULL\<close> included, the score lies between 25 and 80; it
  is 80 at (6.5, 300, 40, 200, 2.5) and 25 at (4.0, 50, 5, 50, 0.3). With nitrogen in
  range and the other two nutrients out of range the nutrient part is 10, the minimum.
\<close>

theorem soil_score_is_weakest_link:
  "calculate_soil_health_score (Some pH) (Some n) (Some p) (Some k) (Some organic)
     = spec_soil_score pH n p k organic
   \<and> 25 \<le> calculate_soil_health_score a b c d e
   \<and> calculate_soil_health_score a b c d e \<le> 80
   \<and> calculate_soil_health_score (Some 6.5) (Some 300) (Some 40) (Some 200) (Some 2.5) = 80
   \<and> calculate_soil_health_score (Some 4.0) (Some 50) (Some 5) (Some 50) (Some 0.3) = 25
   \<and> calculate_soil_health_score (Some 6.5) (Some 300) (Some 5) (Some 50) (Some 2.5) = 70"
proof -
  have top: "calculate_soil_health_score (Some 6.5) (Some 300) (Some 40) (Some 200) (Some 2.5) = 80"
    by code_simp
  have bottom: "calculate_soil_health_score (Some 4.0) (Some 50) (Some 5) (Some 50) (Some 0.3) = 25"
    by code_simp
  have weakest: "calculate_soil_health_score (Some 6.5) (Some 300) (Some 5) (Some 50) (Some 2.5) = 70"
    by code_simp
  from score_on_numbers score_bounds top bottom weakest show ?thesis
    by blast
qed

theorem soil_score_is_weakest_link_witness:
  "calculate_soil_health_score (Some 7) (Some 250) (Some 10) (Some 200) (Some 1.5)
     = spec_soil_score 7 250 10 200 1.5
   \<and> spec_soil_score 7 250 10 200 1.5 = 65
   \<and> 25 \<le> calculate_soil_health_score None None None None None
   \<and> calculate_soil_health_score None None None None None \<le> 80"
proof -
  have v: "spec_soil_score 7 250 10 200 1.5 = 65"
    by (simp add: spec_soil_score_def in_range_def)
  from soil_score_is_weakest_link [of 7 250 10 200 "1.5" None None None None None] v
  show ?thesis by blast
qed

section \<open>Properties of the profile route\<close>

text \<open>
  Claim C8: when \<open>auth()\<close> gives no user id, the read and the write handler both answer
  401 \<open>Unauthorized\<close>, perform no step (no client, no query, no reading of the body) and
  leave the repository as it was.
\<close>

theorem no_identity_is_rejected_first:
  assumes "no_user userId"
  shows "profile_GET userId repo = (Profile_failure ''Unauthorized'' 401, repo, [])
       \<and> profile_POST read userId body repo = (Profile_failure ''Unauthorized'' 401, repo, [])"
  using assms
  by (simp add: no_user_def profile_GET_def profile_POST_def split: option.splits)

theorem no_identity_is_rejected_first_witness:
  "no_user None
   \<and> profile_GET None one_profile = (Profile_failure ''Unauthorized'' 401, one_profile, [])
   \<and> profile_POST (\<lambda>s. None) None (Some blank_payload) one_profile
       = (Profile_failure ''Unauthorized'' 401, one_profile, [])"
proof -
  have n: "no_user None" by (simp add: no_user_def)
  from no_identity_is_rejected_first [OF n, of one_profile "\<lambda>s. None" "Some blank_payload"] n
  show ?thesis by blast
qed

text \<open>With an identity the same request reaches the repository and writes.\<close>

lemma identified_post_writes:
  "snd (snd (profile_POST (\<lambda>s. None) (Some ''user_2'') (Some blank_payload) one_profile))
     = [Read_body, Create_client, Upsert_profile ''user_2'']
   \<and> length (farmer_profiles (fst (snd
        (profile_POST (\<lambda>s. None) (Some ''user_2'') (Some blank_payload) one_profile)))) = 2"
  by (simp add: profile_POST_def one_profile_def Let_def)

end
